theory Spec2Isabelle
  imports Main
begin

section \<open>Venue conflict detection and slot suggestion (lib/venueConflict.ts)\<close>

subsection \<open>JavaScript numbers and Dates\<close>

text \<open>
  A JavaScript \<^verbatim>\<open>Date\<close> is modelled by its time value: \<open>Some t\<close> is the instant
  \<open>t\<close> milliseconds after the epoch, \<open>None\<close> is the Invalid Date, whose time value
  is NaN. The numbers the module computes with are time values and their sums and
  differences, so a number is an integer or NaN as well. Arithmetic with NaN gives NaN
  and every comparison with NaN is false.

  The model adds and subtracts integers exactly and lets every integer be the time value
  of a valid Date. The code computes with doubles, which are exact up to \<open>2 ^ 53\<close>, and
  \<^verbatim>\<open>new Date(n)\<close> is the Invalid Date when \<open>n\<close> is more than 8.64e15 ms away from the epoch.
  So the model is the code as long as every instant, every difference of two instants and
  every sum of an instant and such a difference stays within 8.64e15 ms of the epoch; the
  predicate \<open>inExactRange\<close> below bounds the instants so that this holds. Outside that
  range the code rounds (a difference of more than \<open>2 ^ 53\<close> ms) or throws a RangeError
  (a slot end that is no valid Date), and the model does neither.
\<close>

type_synonym number = "int option"

type_synonym Date = "int option"

definition num_add :: "number \<Rightarrow> number \<Rightarrow> number" where
  "num_add a b = (case a of None \<Rightarrow> None | Some x \<Rightarrow> (case b of None \<Rightarrow> None | Some y \<Rightarrow> Some (x + y)))"

definition num_sub :: "number \<Rightarrow> number \<Rightarrow> number" where
  "num_sub a b = (case a of None \<Rightarrow> None | Some x \<Rightarrow> (case b of None \<Rightarrow> None | Some y \<Rightarrow> Some (x - y)))"

definition num_lt :: "number \<Rightarrow> number \<Rightarrow> bool" where
  "num_lt a b = (case a of None \<Rightarrow> False | Some x \<Rightarrow> (case b of None \<Rightarrow> False | Some y \<Rightarrow> x < y))"

definition num_le :: "number \<Rightarrow> number \<Rightarrow> bool" where
  "num_le a b = (case a of None \<Rightarrow> False | Some x \<Rightarrow> (case b of None \<Rightarrow> False | Some y \<Rightarrow> x \<le> y))"

definition num_gt :: "number \<Rightarrow> number \<Rightarrow> bool" where
  "num_gt a b = num_lt b a"

definition num_ge :: "number \<Rightarrow> number \<Rightarrow> bool" where
  "num_ge a b = num_le b a"

text \<open>
  \<^verbatim>\<open>Date.prototype.toISOString\<close> throws a RangeError on the Invalid Date. The ISO
  string of a valid Date is modelled by the instant it denotes (\<^verbatim>\<open>new Date(d.toISOString())\<close>
  is \<^verbatim>\<open>d\<close> again).
\<close>

datatype exn = RangeError

definition toISOString :: "Date \<Rightarrow> exn + int" where
  "toISOString d = (case d of None \<Rightarrow> Inl RangeError | Some t \<Rightarrow> Inr t)"

text \<open>
  \<^verbatim>\<open>toISOString().split('T')[0]\<close> is the UTC calendar day of an instant, modelled by its
  day number. A date-time string without a zone, \<^verbatim>\<open>`${eventDate}T09:00:00`\<close>, is read in
  local time: \<open>utcOffset\<close> is the number of milliseconds local time is ahead of UTC,
  the same at 09:00 and at 21:00 of the day.
\<close>

definition msPerDay :: int where
  "msPerDay = 86400000"

definition msPerHour :: int where
  "msPerHour = 3600000"

definition isoDate :: "int \<Rightarrow> int" where
  "isoDate t = t div msPerDay"

definition localDateTime :: "int \<Rightarrow> int \<Rightarrow> int \<Rightarrow> int" where
  "localDateTime utcOffset eventDate hours = eventDate * msPerDay + hours * msPerHour - utcOffset"

subsection \<open>Data\<close>

text \<open>
  The interfaces of the module. The field \<^verbatim>\<open>id\<close> of an event is \<open>event_id\<close> here, and
  the fields \<^verbatim>\<open>start_time\<close> and \<^verbatim>\<open>end_time\<close> of a time slot are \<open>slot_start_time\<close> and
  \<open>slot_end_time\<close>, since an event has fields of the same names.
\<close>

record Clubs =
  club_name :: string

record ConflictEvent =
  event_id :: string
  event_name :: string
  start_time :: int
  end_time :: int
  venue_id :: string
  clubs :: Clubs

record TimeSlot =
  slot_start_time :: int
  slot_end_time :: int
  available :: bool

record ConflictCheck =
  hasConflict :: bool
  conflictingEvents :: "ConflictEvent list"
  suggestedSlots :: "TimeSlot list"

text \<open>
  The query the module builds and the answer of the store. The store is the external
  collaborator: it is a parameter of the model, a function from the query to its answer
  \<^verbatim>\<open>{ data, error }\<close>, where \<open>None\<close> stands for \<^verbatim>\<open>null\<close>. The stored
  \<^verbatim>\<open>start_time\<close> and \<^verbatim>\<open>end_time\<close> columns are \<^verbatim>\<open>TIMESTAMP WITH TIME ZONE NOT NULL\<close>,
  so the rows carry instants.
\<close>

record Query =
  eq_venue_id :: string
  gte_start_time :: "int \<times> string"
  lt_start_time :: "int \<times> string"
  neq_id :: "string option"

record QueryResult =
  data :: "ConflictEvent list option"
  error :: "string option"

text \<open>
  The \<^verbatim>\<open>{ start, end }\<close> objects of \<^verbatim>\<open>sortedEvents\<close>, with fields \<open>istart\<close> and
  \<open>iend\<close>.
\<close>

record Interval =
  istart :: int
  iend :: int

subsection \<open>checkVenueConflict\<close>

text \<open>
  The condition under which \<^verbatim>\<open>checkVenueConflict\<close> records an existing event as
  conflicting: the four cases of the source, in its order.
\<close>

definition eventsOverlap :: "Date \<Rightarrow> Date \<Rightarrow> Date \<Rightarrow> Date \<Rightarrow> bool" where
  "eventsOverlap newStart newEnd existingStart existingEnd =
     ((num_ge newStart existingStart \<and> num_lt newStart existingEnd) \<or>
      (num_gt newEnd existingStart \<and> num_le newEnd existingEnd) \<or>
      (num_le newStart existingStart \<and> num_ge newEnd existingEnd) \<or>
      (num_ge newStart existingStart \<and> num_le newEnd existingEnd))"

text \<open>The \<^verbatim>\<open>forEach\<close> over the fetched rows, pushing onto \<^verbatim>\<open>conflictingEvents\<close>.\<close>

fun forEachEvent :: "Date \<Rightarrow> Date \<Rightarrow> ConflictEvent list \<Rightarrow> ConflictEvent list \<Rightarrow> ConflictEvent list" where
  "forEachEvent newStart newEnd [] acc = acc"
| "forEachEvent newStart newEnd (event # rest) acc =
     forEachEvent newStart newEnd rest
       (if eventsOverlap newStart newEnd (Some (start_time event)) (Some (end_time event))
        then acc @ [event] else acc)"

subsection \<open>generateSuggestedSlots\<close>

text \<open>
  \<^verbatim>\<open>suggestions.push({ start_time: a.toISOString(), end_time: b.toISOString(), available: true })\<close>:
  the list of suggestions is threaded through the steps, and a RangeError of
  \<^verbatim>\<open>toISOString\<close> ends the call. In the model only the Invalid Date that comes from a
  NaN raises it; a slot end beyond the range of valid Dates, on which the code raises it
  too, does not occur for instants within \<open>inExactRange\<close>.
\<close>

definition pushSlot :: "TimeSlot list \<Rightarrow> Date \<Rightarrow> Date \<Rightarrow> exn + TimeSlot list" where
  "pushSlot suggestions slotStart slotEnd =
     (case toISOString slotStart of
        Inl e \<Rightarrow> Inl e
      | Inr s \<Rightarrow>
          (case toISOString slotEnd of
             Inl e \<Rightarrow> Inl e
           | Inr t \<Rightarrow> Inr (suggestions @ [\<lparr>slot_start_time = s, slot_end_time = t, available = True\<rparr>])))"

text \<open>Check slot before first event.\<close>

definition slotBeforeFirst :: "Date \<Rightarrow> number \<Rightarrow> Interval list \<Rightarrow> TimeSlot list \<Rightarrow> exn + TimeSlot list" where
  "slotBeforeFirst dayStart eventDuration sortedEvents suggestions =
     (if length sortedEvents > 0 then
        (let firstEvent = sortedEvents ! 0;
             availableEnd = Some (istart firstEvent)
         in if num_le (num_add dayStart eventDuration) availableEnd
            then pushSlot suggestions dayStart (num_add dayStart eventDuration)
            else Inr suggestions)
      else Inr suggestions)"

text \<open>
  Check slots between events: the loop \<^verbatim>\<open>for (let i = 0; i < sortedEvents.length - 1; i++)\<close>,
  with the counter a natural number, so that the test reads \<open>i + 1 < length sortedEvents\<close>.
\<close>

function slotsBetween :: "number \<Rightarrow> Interval list \<Rightarrow> nat \<Rightarrow> TimeSlot list \<Rightarrow> exn + TimeSlot list" where
  "slotsBetween eventDuration sortedEvents i suggestions =
     (if i + 1 < length sortedEvents then
        (let currentEventEnd = Some (iend (sortedEvents ! i));
             nextEventStart = Some (istart (sortedEvents ! (i + 1)));
             availableDuration = num_sub nextEventStart currentEventEnd
         in if num_ge availableDuration eventDuration
            then (case pushSlot suggestions currentEventEnd (num_add currentEventEnd eventDuration) of
                    Inl e \<Rightarrow> Inl e
                  | Inr pushed \<Rightarrow> slotsBetween eventDuration sortedEvents (i + 1) pushed)
            else slotsBetween eventDuration sortedEvents (i + 1) suggestions)
      else Inr suggestions)"
  by pat_completeness auto
termination
  by (relation "measure (\<lambda>(eventDuration, sortedEvents, i, suggestions). length sortedEvents - i)") auto

text \<open>Check slot after last event.\<close>

definition slotAfterLast :: "Date \<Rightarrow> number \<Rightarrow> Interval list \<Rightarrow> TimeSlot list \<Rightarrow> exn + TimeSlot list" where
  "slotAfterLast dayEnd eventDuration sortedEvents suggestions =
     (if length sortedEvents > 0 then
        (let lastEvent = sortedEvents ! (length sortedEvents - 1);
             availableStart = Some (iend lastEvent)
         in if num_le (num_add availableStart eventDuration) dayEnd
            then pushSlot suggestions availableStart (num_add availableStart eventDuration)
            else Inr suggestions)
      else Inr suggestions)"

text \<open>If no existing events, suggest the requested time if within working hours.\<close>

definition slotNoEvents :: "Date \<Rightarrow> Date \<Rightarrow> Date \<Rightarrow> Date \<Rightarrow> number \<Rightarrow> Interval list \<Rightarrow> TimeSlot list \<Rightarrow> exn + TimeSlot list" where
  "slotNoEvents dayStart dayEnd requestedStart requestedEnd eventDuration sortedEvents suggestions =
     (if length sortedEvents = 0 then
        (let requestedStartTime = requestedStart;
             requestedEndTime = requestedEnd
         in if num_ge requestedStartTime dayStart \<and> num_le requestedEndTime dayEnd
            then pushSlot suggestions dayStart (num_add dayStart eventDuration)
            else Inr suggestions)
      else Inr suggestions)"

text \<open>
  \<^verbatim>\<open>sortedEvents\<close>: the rows mapped to their \<^verbatim>\<open>{ start, end }\<close> Dates and sorted by
  start time. \<^verbatim>\<open>Array.prototype.sort\<close> is stable, as the insertion sort \<open>sort_key\<close> is.
\<close>

definition sortedEventsOf :: "ConflictEvent list \<Rightarrow> Interval list" where
  "sortedEventsOf existingEvents =
     sort_key istart (map (\<lambda>event. \<lparr>istart = start_time event, iend = end_time event\<rparr>) existingEvents)"

text \<open>
  The final filter of \<^verbatim>\<open>generateSuggestedSlots\<close>: \<^verbatim>\<open>start >= dayStart && end <= dayEnd\<close>
  on the Dates read back from the slot's ISO strings.
\<close>

definition withinWorkingHours :: "Date \<Rightarrow> Date \<Rightarrow> TimeSlot \<Rightarrow> bool" where
  "withinWorkingHours dayStart dayEnd slot =
     (num_ge (Some (slot_start_time slot)) dayStart \<and> num_le (Some (slot_end_time slot)) dayEnd)"

definition generateSuggestedSlots :: "int \<Rightarrow> string \<Rightarrow> int \<Rightarrow> Date \<Rightarrow> Date \<Rightarrow> ConflictEvent list \<Rightarrow> exn + TimeSlot list" where
  "generateSuggestedSlots utcOffset venueId eventDate requestedStart requestedEnd existingEvents =
     (let eventDuration = num_sub requestedEnd requestedStart;
          dayStart = Some (localDateTime utcOffset eventDate 9);
          dayEnd = Some (localDateTime utcOffset eventDate 21);
          sortedEvents = sortedEventsOf existingEvents
      in case slotBeforeFirst dayStart eventDuration sortedEvents [] of
           Inl e \<Rightarrow> Inl e
         | Inr s1 \<Rightarrow>
        (case slotsBetween eventDuration sortedEvents 0 s1 of
           Inl e \<Rightarrow> Inl e
         | Inr s2 \<Rightarrow>
        (case slotAfterLast dayEnd eventDuration sortedEvents s2 of
           Inl e \<Rightarrow> Inl e
         | Inr s3 \<Rightarrow>
        (case slotNoEvents dayStart dayEnd requestedStart requestedEnd eventDuration sortedEvents s3 of
           Inl e \<Rightarrow> Inl e
         | Inr suggestions \<Rightarrow>
             Inr (take 3 (filter (withinWorkingHours dayStart dayEnd) suggestions))))))"

text \<open>
  The query for the events at the same venue that start on the same date, without the
  event \<^verbatim>\<open>excludeEventId\<close> when one is given: \<^verbatim>\<open>if (excludeEventId)\<close> is false for
  \<^verbatim>\<open>undefined\<close> and for the empty string.
\<close>

definition buildQuery :: "string \<Rightarrow> int \<Rightarrow> string option \<Rightarrow> Query" where
  "buildQuery venueId eventDate excludeEventId =
     \<lparr>eq_venue_id = venueId,
      gte_start_time = (eventDate, ''T00:00:00''),
      lt_start_time = (eventDate, ''T23:59:59''),
      neq_id = (case excludeEventId of
                  None \<Rightarrow> None
                | Some x \<Rightarrow> if x = [] then None else Some x)\<rparr>"

text \<open>
  \<^verbatim>\<open>checkVenueConflict\<close>. The arguments \<open>startTime\<close> and \<open>endTime\<close> are the Dates that
  \<^verbatim>\<open>new Date(startTime)\<close> and \<^verbatim>\<open>new Date(endTime)\<close> give. \<^verbatim>\<open>newStart.toISOString()\<close>
  throws on an invalid start.
\<close>

definition checkVenueConflict ::
    "(Query \<Rightarrow> QueryResult) \<Rightarrow> int \<Rightarrow> string \<Rightarrow> Date \<Rightarrow> Date \<Rightarrow> string option \<Rightarrow> exn + ConflictCheck" where
  "checkVenueConflict store utcOffset venueId startTime endTime excludeEventId =
     (let newStart = startTime;
          newEnd = endTime
      in case toISOString newStart of
           Inl e \<Rightarrow> Inl e
         | Inr isoString \<Rightarrow>
             (let eventDate = isoDate isoString;
                  query = buildQuery venueId eventDate excludeEventId;
                  result = store query;
                  existingEvents = data result
              in if error result \<noteq> None
                 then Inr \<lparr>hasConflict = False, conflictingEvents = [], suggestedSlots = []\<rparr>
                 else
                   (let conflicting = (case existingEvents of
                                         None \<Rightarrow> []
                                       | Some events \<Rightarrow> forEachEvent newStart newEnd events [])
                    in case (if length conflicting > 0
                             then generateSuggestedSlots utcOffset venueId eventDate newStart newEnd
                                    (case existingEvents of None \<Rightarrow> [] | Some events \<Rightarrow> events)
                             else Inr []) of
                         Inl e \<Rightarrow> Inl e
                       | Inr slots \<Rightarrow>
                           Inr \<lparr>hasConflict = length conflicting > 0,
                                conflictingEvents = conflicting,
                                suggestedSlots = slots\<rparr>)))"

subsection \<open>Descriptions used in the statements\<close>

text \<open>
  The half-open overlap of two intervals, \<open>aStart < bEnd\<close> and \<open>bStart < aEnd\<close>, as the
  specification of the conflict detector words it.
\<close>

definition overlaps :: "int \<Rightarrow> int \<Rightarrow> int \<Rightarrow> int \<Rightarrow> bool" where
  "overlaps aStart aEnd bStart bEnd = (aStart < bEnd \<and> bStart < aEnd)"

text \<open>
  The candidate slots of one call with valid request Dates, written without the threaded
  list: \<open>v\<close> is the event duration, \<open>evs\<close> the sorted events. The lemmas below show
  that the steps of \<^verbatim>\<open>generateSuggestedSlots\<close> append exactly these lists.
\<close>

definition mkSlot :: "int \<Rightarrow> int \<Rightarrow> TimeSlot" where
  "mkSlot s t = \<lparr>slot_start_time = s, slot_end_time = t, available = True\<rparr>"

definition candBeforeFirst :: "int \<Rightarrow> int \<Rightarrow> Interval list \<Rightarrow> TimeSlot list" where
  "candBeforeFirst dayStart v evs =
     (if evs \<noteq> [] \<and> dayStart + v \<le> istart (hd evs) then [mkSlot dayStart (dayStart + v)] else [])"

definition candGap :: "int \<Rightarrow> Interval list \<Rightarrow> nat \<Rightarrow> TimeSlot list" where
  "candGap v evs i =
     (if v \<le> istart (evs ! (i + 1)) - iend (evs ! i)
      then [mkSlot (iend (evs ! i)) (iend (evs ! i) + v)] else [])"

definition candBetween :: "int \<Rightarrow> Interval list \<Rightarrow> TimeSlot list" where
  "candBetween v evs = concat (map (candGap v evs) [0..<length evs - 1])"

definition candAfterLast :: "int \<Rightarrow> int \<Rightarrow> Interval list \<Rightarrow> TimeSlot list" where
  "candAfterLast dayEnd v evs =
     (if evs \<noteq> [] \<and> iend (last evs) + v \<le> dayEnd
      then [mkSlot (iend (last evs)) (iend (last evs) + v)] else [])"

definition candNoEvents :: "int \<Rightarrow> int \<Rightarrow> int \<Rightarrow> int \<Rightarrow> Interval list \<Rightarrow> TimeSlot list" where
  "candNoEvents dayStart dayEnd s e evs =
     (if evs = [] \<and> dayStart \<le> s \<and> e \<le> dayEnd then [mkSlot dayStart (dayStart + (e - s))] else [])"

text \<open>
  All candidates in the order in which the source pushes them: the slot before the first
  event, the slots of the gaps in ascending index, the slot after the last event, the
  slot of the day without events.
\<close>

definition candidates :: "int \<Rightarrow> int \<Rightarrow> int \<Rightarrow> int \<Rightarrow> Interval list \<Rightarrow> TimeSlot list" where
  "candidates dayStart dayEnd s e evs =
     candBeforeFirst dayStart (e - s) evs @ candBetween (e - s) evs @
     candAfterLast dayEnd (e - s) evs @ candNoEvents dayStart dayEnd s e evs"

subsection \<open>The range of exact Date arithmetic\<close>

text \<open>
  The largest time value of a valid Date, 8.64e15 ms, which is below \<open>2 ^ 53\<close>. An
  instant is in the exact range when it is within a third of that of the epoch: then a
  sum of one such instant and the difference of two others is still the time value of a
  valid Date, and the doubles of the code compute it exactly.
\<close>

definition maxTimeValue :: int where
  "maxTimeValue = 8640000000000000"

definition inExactRange :: "int \<Rightarrow> bool" where
  "inExactRange t = (3 * \<bar>t\<bar> \<le> maxTimeValue)"


definition eventsInExactRange :: "ConflictEvent list \<Rightarrow> bool" where
  "eventsInExactRange events =
     list_all (\<lambda>event. inExactRange (start_time event) \<and> inExactRange (end_time event)) events"

subsection \<open>Concrete inputs\<close>

text \<open>
  Instants of 1 January 1970 by hour and minute, rows of the events table at one venue,
  a store that answers every query with the given rows, and a store whose fetch fails.
\<close>

definition hm :: "int \<Rightarrow> int \<Rightarrow> int" where
  "hm h m = h * 3600000 + m * 60000"

definition booking :: "string \<Rightarrow> int \<Rightarrow> int \<Rightarrow> ConflictEvent" where
  "booking name startsAt endsAt =
     \<lparr>event_id = name, event_name = name, start_time = startsAt, end_time = endsAt,
      venue_id = ''hall'', clubs = \<lparr>club_name = ''club''\<rparr>\<rparr>"

definition storeOf :: "ConflictEvent list \<Rightarrow> Query \<Rightarrow> QueryResult" where
  "storeOf events query = \<lparr>data = Some events, error = None\<rparr>"

definition failingStore :: "Query \<Rightarrow> QueryResult" where
  "failingStore query = \<lparr>data = None, error = Some ''connection refused''\<rparr>"

section \<open>Properties\<close>

subsection \<open>Numbers and the steps of the suggester\<close>

lemma num_simps [simp]:
  "num_add (Some x) (Some y) = Some (x + y)"
  "num_sub (Some x) (Some y) = Some (x - y)"
  "num_le (Some x) (Some y) = (x \<le> y)"
  "num_lt (Some x) (Some y) = (x < y)"
  "num_ge (Some x) (Some y) = (y \<le> x)"
  "num_gt (Some x) (Some y) = (y < x)"
  by (simp_all add: num_add_def num_sub_def num_le_def num_lt_def num_ge_def num_gt_def)

lemma num_nan [simp]:
  "num_add a None = None" "num_add None b = None"
  "num_sub a None = None" "num_sub None b = None"
  "num_le a None = False" "num_le None b = False"
  "num_lt a None = False" "num_lt None b = False"
  "num_ge a None = False" "num_ge None b = False"
  "num_gt a None = False" "num_gt None b = False"
  by (simp_all add: num_add_def num_sub_def num_le_def num_lt_def num_ge_def num_gt_def
      split: option.splits)

lemma pushSlot_valid [simp]:
  "pushSlot suggestions (Some a) (Some b) = Inr (suggestions @ [mkSlot a b])"
  by (simp add: pushSlot_def toISOString_def mkSlot_def)

lemma slotBeforeFirst_valid:
  "slotBeforeFirst (Some ds) (Some v) evs suggestions = Inr (suggestions @ candBeforeFirst ds v evs)"
  by (cases evs) (simp_all add: slotBeforeFirst_def candBeforeFirst_def)

lemma slotBeforeFirst_nan:
  "slotBeforeFirst dayStart None evs suggestions = Inr suggestions"
  by (simp add: slotBeforeFirst_def)

lemma slotAfterLast_valid:
  "slotAfterLast (Some de) (Some v) evs suggestions = Inr (suggestions @ candAfterLast de v evs)"
  by (simp add: slotAfterLast_def candAfterLast_def last_conv_nth Let_def)

lemma slotAfterLast_nan:
  "slotAfterLast dayEnd None evs suggestions = Inr suggestions"
  by (simp add: slotAfterLast_def)

lemma slotNoEvents_valid:
  "slotNoEvents (Some ds) (Some de) (Some s) (Some e) (Some (e - s)) evs suggestions =
     Inr (suggestions @ candNoEvents ds de s e evs)"
  by (simp add: slotNoEvents_def candNoEvents_def)

lemma slotNoEvents_nan:
  "requestedStart = None \<or> requestedEnd = None \<Longrightarrow>
   slotNoEvents dayStart dayEnd requestedStart requestedEnd d evs suggestions = Inr suggestions"
  by (auto simp add: slotNoEvents_def)

declare slotsBetween.simps [simp del]

text \<open>The loop over the gaps, by induction on the number of indices still to visit.\<close>

lemma slotsBetween_valid:
  "slotsBetween (Some v) evs i suggestions =
     Inr (suggestions @ concat (map (candGap v evs) [i..<length evs - 1]))"
proof (induction "length evs - i" arbitrary: i suggestions)
  case 0
  then show ?case by (subst slotsBetween.simps) simp
next
  case (Suc n)
  show ?case
  proof (cases "i + 1 < length evs")
    case True
    then have upt: "[i..<length evs - Suc 0] = i # [Suc i..<length evs - Suc 0]"
      by (simp add: upt_conv_Cons)
    from Suc have n: "n = length evs - Suc i" by simp
    from True have lt: "Suc i < length evs" by simp
    show ?thesis
      by (subst slotsBetween.simps) (simp add: lt upt Suc.hyps(1)[OF n] candGap_def Let_def)
  next
    case False
    then show ?thesis by (subst slotsBetween.simps) simp
  qed
qed

lemma slotsBetween_nan:
  "slotsBetween None evs i suggestions = Inr suggestions"
proof (induction "length evs - i" arbitrary: i suggestions)
  case 0
  then show ?case by (subst slotsBetween.simps) simp
next
  case (Suc n)
  from Suc have n: "n = length evs - Suc i" by simp
  show ?case
    by (subst slotsBetween.simps) (simp add: Suc.hyps(1)[OF n] Let_def)
qed

subsection \<open>What generateSuggestedSlots returns\<close>

lemma generateSuggestedSlots_valid:
  "generateSuggestedSlots utcOffset venueId eventDate (Some s) (Some e) existingEvents =
     Inr (take 3 (filter (withinWorkingHours (Some (localDateTime utcOffset eventDate 9))
                                              (Some (localDateTime utcOffset eventDate 21)))
            (candidates (localDateTime utcOffset eventDate 9) (localDateTime utcOffset eventDate 21)
               s e (sortedEventsOf existingEvents))))"
  by (simp add: generateSuggestedSlots_def Let_def slotBeforeFirst_valid slotsBetween_valid
      slotAfterLast_valid slotNoEvents_valid candidates_def candBetween_def)

lemma generateSuggestedSlots_nan:
  "requestedStart = None \<or> requestedEnd = None \<Longrightarrow>
   generateSuggestedSlots utcOffset venueId eventDate requestedStart requestedEnd existingEvents = Inr []"
  by (auto simp add: generateSuggestedSlots_def Let_def slotBeforeFirst_nan slotsBetween_nan
      slotAfterLast_nan slotNoEvents_nan)

lemma generateSuggestedSlots_returns:
  "\<exists>slots. generateSuggestedSlots utcOffset venueId eventDate requestedStart requestedEnd existingEvents = Inr slots"
proof (cases "requestedStart = None \<or> requestedEnd = None")
  case True
  then show ?thesis by (simp add: generateSuggestedSlots_nan)
next
  case False
  then obtain s e where "requestedStart = Some s" "requestedEnd = Some e" by auto
  then show ?thesis by (simp add: generateSuggestedSlots_valid)
qed

lemma candidates_duration:
  "slot \<in> set (candidates dayStart dayEnd s e evs) \<Longrightarrow>
   slot_end_time slot - slot_start_time slot = e - s"
  by (auto simp add: candidates_def candBeforeFirst_def candBetween_def candGap_def
      candAfterLast_def candNoEvents_def mkSlot_def split: if_splits)

lemma candidates_available:
  "slot \<in> set (candidates dayStart dayEnd s e evs) \<Longrightarrow> available slot"
  by (auto simp add: candidates_def candBeforeFirst_def candBetween_def candGap_def
      candAfterLast_def candNoEvents_def mkSlot_def split: if_splits)



text \<open>
  Within the exact range the integers of the model are what the code computes: the
  duration, the length of every gap and both ends of every slot pushed are time values
  of valid Dates, so the doubles are exact and no \<^verbatim>\<open>toISOString\<close> throws.
\<close>

lemma set_sortedEventsOf:
  "set (sortedEventsOf existingEvents) =
     (\<lambda>event. \<lparr>istart = start_time event, iend = end_time event\<rparr>) ` set existingEvents"
  by (simp add: sortedEventsOf_def)

lemma sortedEventsOf_in_range:
  assumes "eventsInExactRange existingEvents" and "iv \<in> set (sortedEventsOf existingEvents)"
  shows "inExactRange (istart iv) \<and> inExactRange (iend iv)"
  using assms by (auto simp add: set_sortedEventsOf eventsInExactRange_def list_all_iff)

lemma candidates_start:
  assumes "slot \<in> set (candidates dayStart dayEnd s e evs)"
  shows "slot_start_time slot = dayStart \<or> (\<exists>iv\<in>set evs. slot_start_time slot = iend iv)"
proof -
  have gap: "evs ! i \<in> set evs" if "i < length evs - 1" for i
    using that by simp
  from assms gap show ?thesis
    by (auto simp add: candidates_def candBeforeFirst_def candBetween_def candGap_def
        candAfterLast_def candNoEvents_def mkSlot_def split: if_splits)
qed

lemma gaps_are_valid_time_values:
  assumes "eventsInExactRange existingEvents"
    and "a \<in> set (sortedEventsOf existingEvents)" and "b \<in> set (sortedEventsOf existingEvents)"
  shows "\<bar>istart b - iend a\<bar> \<le> maxTimeValue"
  using sortedEventsOf_in_range [OF assms(1,2)] sortedEventsOf_in_range [OF assms(1,3)]
  unfolding inExactRange_def by arith

lemma candidates_are_valid_time_values:
  assumes "inExactRange dayStart" and "inExactRange s" and "inExactRange e"
    and "eventsInExactRange existingEvents"
    and "slot \<in> set (candidates dayStart dayEnd s e (sortedEventsOf existingEvents))"
  shows "\<bar>e - s\<bar> \<le> maxTimeValue \<and> \<bar>slot_start_time slot\<bar> \<le> maxTimeValue \<and>
         \<bar>slot_end_time slot\<bar> \<le> maxTimeValue"
proof -
  have d: "slot_end_time slot = slot_start_time slot + (e - s)"
    using candidates_duration [OF assms(5)] by simp
  have "inExactRange (slot_start_time slot)"
    using candidates_start [OF assms(5)] assms(1) sortedEventsOf_in_range [OF assms(4)]
    by auto
  with assms(2,3) d show ?thesis
    unfolding inExactRange_def by arith
qed

subsection \<open>What checkVenueConflict returns\<close>

lemma forEachEvent_filter:
  "forEachEvent newStart newEnd events acc =
     acc @ filter (\<lambda>event. eventsOverlap newStart newEnd (Some (start_time event)) (Some (end_time event))) events"
  by (induction events arbitrary: acc) simp_all

lemma eventsOverlap_half_open:
  "s < e \<Longrightarrow> es < ee \<Longrightarrow> eventsOverlap (Some s) (Some e) (Some es) (Some ee) = overlaps s e es ee"
  by (auto simp add: eventsOverlap_def overlaps_def)

lemma checkVenueConflict_invalid_start:
  "checkVenueConflict store utcOffset venueId None endTime excludeEventId = Inl RangeError"
  by (simp add: checkVenueConflict_def toISOString_def)

lemma checkVenueConflict_fetch_error:
  "error (store (buildQuery venueId (isoDate s) excludeEventId)) \<noteq> None \<Longrightarrow>
   checkVenueConflict store utcOffset venueId (Some s) endTime excludeEventId =
     Inr \<lparr>hasConflict = False, conflictingEvents = [], suggestedSlots = []\<rparr>"
  by (simp add: checkVenueConflict_def toISOString_def Let_def)

lemma checkVenueConflict_fetched:
  fixes store utcOffset venueId s endTime excludeEventId
  defines "result \<equiv> store (buildQuery venueId (isoDate s) excludeEventId)"
  defines "existing \<equiv> (case data result of None \<Rightarrow> [] | Some events \<Rightarrow> events)"
  defines "conflicting \<equiv>
    filter (\<lambda>event. eventsOverlap (Some s) endTime (Some (start_time event)) (Some (end_time event))) existing"
  assumes ok: "error result = None"
  shows "\<exists>slots. generateSuggestedSlots utcOffset venueId (isoDate s) (Some s) endTime existing = Inr slots \<and>
           checkVenueConflict store utcOffset venueId (Some s) endTime excludeEventId =
             Inr \<lparr>hasConflict = (conflicting \<noteq> []), conflictingEvents = conflicting,
                  suggestedSlots = (if conflicting \<noteq> [] then slots else [])\<rparr>"
proof -
  obtain slots where g:
    "generateSuggestedSlots utcOffset venueId (isoDate s) (Some s) endTime existing = Inr slots"
    using generateSuggestedSlots_returns by blast
  have c: "(case data result of None \<Rightarrow> [] | Some events \<Rightarrow> forEachEvent (Some s) endTime events []) = conflicting"
    by (simp add: conflicting_def existing_def forEachEvent_filter split: option.splits)
  have "checkVenueConflict store utcOffset venueId (Some s) endTime excludeEventId =
          Inr \<lparr>hasConflict = (conflicting \<noteq> []), conflictingEvents = conflicting,
               suggestedSlots = (if conflicting \<noteq> [] then slots else [])\<rparr>"
    unfolding checkVenueConflict_def toISOString_def Let_def
    using ok g c by (simp add: result_def existing_def)
  with g show ?thesis by blast
qed

section \<open>The claims\<close>

text \<open>
  C1 (the code breaks it): every slot the suggester returns should overlap no booking of
  the input list. The slot after the last event starts at the end of the booking that
  starts last, and an earlier booking that ends later is not looked at. With booking A
  from 10:00 to 20:00, booking B from 11:00 to 12:00 and a request for 11:00 to 12:00, the
  suggester returns the slots 09:00 to 10:00 and 12:00 to 13:00, and the second one lies
  inside booking A. \<^verbatim>\<open>checkVenueConflict\<close> hands the same slots to its caller.
\<close>

theorem suggested_slot_overlaps_longer_booking:
  "generateSuggestedSlots 0 ''hall'' 0 (Some (hm 11 0)) (Some (hm 12 0))
     [booking ''A'' (hm 10 0) (hm 20 0), booking ''B'' (hm 11 0) (hm 12 0)] =
     Inr [\<lparr>slot_start_time = hm 9 0, slot_end_time = hm 10 0, available = True\<rparr>,
          \<lparr>slot_start_time = hm 12 0, slot_end_time = hm 13 0, available = True\<rparr>] \<and>
   overlaps (hm 12 0) (hm 13 0)
     (start_time (booking ''A'' (hm 10 0) (hm 20 0))) (end_time (booking ''A'' (hm 10 0) (hm 20 0))) \<and>
   checkVenueConflict
     (storeOf [booking ''A'' (hm 10 0) (hm 20 0), booking ''B'' (hm 11 0) (hm 12 0)])
     0 ''hall'' (Some (hm 11 0)) (Some (hm 12 0)) None =
     Inr \<lparr>hasConflict = True,
          conflictingEvents = [booking ''A'' (hm 10 0) (hm 20 0), booking ''B'' (hm 11 0) (hm 12 0)],
          suggestedSlots =
            [\<lparr>slot_start_time = hm 9 0, slot_end_time = hm 10 0, available = True\<rparr>,
             \<lparr>slot_start_time = hm 12 0, slot_end_time = hm 13 0, available = True\<rparr>]\<rparr>"
  by code_simp

text \<open>
  C2: for a request with start before end and fetched bookings each with start before
  end, \<^verbatim>\<open>checkVenueConflict\<close> returns, and its conflicting events are exactly the fetched
  bookings that overlap the request under the half-open predicate, in the order of the
  input; on these inputs the four cases of the source say the same as that predicate.
\<close>

theorem conflicts_are_the_overlapping_bookings:
  assumes "s < e"
    and "\<forall>event\<in>set events. start_time event < end_time event"
    and "store (buildQuery venueId (isoDate s) excludeEventId) = \<lparr>data = Some events, error = None\<rparr>"
  shows "(\<exists>r. checkVenueConflict store utcOffset venueId (Some s) (Some e) excludeEventId = Inr r \<and>
            conflictingEvents r =
              filter (\<lambda>event. overlaps s e (start_time event) (end_time event)) events) \<and>
         (\<forall>event\<in>set events.
            eventsOverlap (Some s) (Some e) (Some (start_time event)) (Some (end_time event)) =
            overlaps s e (start_time event) (end_time event))"
proof
  have f: "filter (\<lambda>event. eventsOverlap (Some s) (Some e) (Some (start_time event)) (Some (end_time event))) events =
           filter (\<lambda>event. overlaps s e (start_time event) (end_time event)) events"
    by (rule filter_cong) (use assms(1,2) in \<open>simp_all add: eventsOverlap_half_open\<close>)
  have ok: "error (store (buildQuery venueId (isoDate s) excludeEventId)) = None"
    by (simp add: assms(3))
  from checkVenueConflict_fetched [where store = store and venueId = venueId and s = s
      and excludeEventId = excludeEventId and utcOffset = utcOffset and endTime = "Some e"] ok f
  show "\<exists>r. checkVenueConflict store utcOffset venueId (Some s) (Some e) excludeEventId = Inr r \<and>
            conflictingEvents r =
              filter (\<lambda>event. overlaps s e (start_time event) (end_time event)) events"
    by (auto simp add: assms(3))
next
  from assms(1,2)
  show "\<forall>event\<in>set events.
            eventsOverlap (Some s) (Some e) (Some (start_time event)) (Some (end_time event)) =
            overlaps s e (start_time event) (end_time event)"
    by (simp add: eventsOverlap_half_open)
qed

text \<open>
  A run of it: bookings 09:00 to 11:00, 11:30 to 13:00 and 18:00 to 19:00, request 10:00
  to 12:00. The first two are reported, in this order.
\<close>

theorem conflicts_are_the_overlapping_bookings_witness:
  "hm 10 0 < hm 12 0 \<and>
   start_time (booking ''A'' (hm 9 0) (hm 11 0)) < end_time (booking ''A'' (hm 9 0) (hm 11 0)) \<and>
   start_time (booking ''B'' (hm 11 30) (hm 13 0)) < end_time (booking ''B'' (hm 11 30) (hm 13 0)) \<and>
   start_time (booking ''C'' (hm 18 0) (hm 19 0)) < end_time (booking ''C'' (hm 18 0) (hm 19 0)) \<and>
   (\<exists>r. checkVenueConflict
          (storeOf [booking ''A'' (hm 9 0) (hm 11 0), booking ''B'' (hm 11 30) (hm 13 0),
                    booking ''C'' (hm 18 0) (hm 19 0)])
          0 ''hall'' (Some (hm 10 0)) (Some (hm 12 0)) None = Inr r \<and>
        conflictingEvents r = [booking ''A'' (hm 9 0) (hm 11 0), booking ''B'' (hm 11 30) (hm 13 0)])"
proof -
  let ?events = "[booking ''A'' (hm 9 0) (hm 11 0), booking ''B'' (hm 11 30) (hm 13 0),
                  booking ''C'' (hm 18 0) (hm 19 0)]"
  have h1: "hm 10 0 < hm 12 0"
    by code_simp
  have h2: "\<forall>event\<in>set ?events. start_time event < end_time event"
    by code_simp
  have h3: "storeOf ?events (buildQuery ''hall'' (isoDate (hm 10 0)) None) =
            \<lparr>data = Some ?events, error = None\<rparr>"
    by (simp add: storeOf_def)
  have f: "filter (\<lambda>event. overlaps (hm 10 0) (hm 12 0) (start_time event) (end_time event)) ?events =
           [booking ''A'' (hm 9 0) (hm 11 0), booking ''B'' (hm 11 30) (hm 13 0)]"
    by code_simp
  from conflicts_are_the_overlapping_bookings [where s = "hm 10 0" and e = "hm 12 0"
      and events = ?events and store = "storeOf ?events" and venueId = "''hall''"
      and excludeEventId = None and utcOffset = 0] h1 h2 h3
  have "\<exists>r. checkVenueConflict (storeOf ?events) 0 ''hall'' (Some (hm 10 0)) (Some (hm 12 0)) None = Inr r \<and>
          conflictingEvents r =
            filter (\<lambda>event. overlaps (hm 10 0) (hm 12 0) (start_time event) (end_time event)) ?events"
    by blast
  with f h1 h2 show ?thesis by simp
qed

text \<open>
  C3, as the claim states it, fails: when the fetch fails, \<^verbatim>\<open>checkVenueConflict\<close> logs
  the error and returns an ordinary result that reports no conflict. Here every query
  fails, and the call returns \<open>hasConflict = False\<close> with no events and no slots.
\<close>

theorem fetch_failure_reported_as_no_conflict:
  "error (failingStore (buildQuery ''hall'' (isoDate (hm 11 0)) None)) = Some ''connection refused'' \<and>
   checkVenueConflict failingStore 0 ''hall'' (Some (hm 11 0)) (Some (hm 12 0)) None =
     Inr \<lparr>hasConflict = False, conflictingEvents = [], suggestedSlots = []\<rparr>"
  by code_simp

text \<open>
  C3, amended: for every request with a valid start Date on which the fetch fails,
  \<^verbatim>\<open>checkVenueConflict\<close> does not propagate the failure; it returns the result with
  \<open>hasConflict = False\<close>, no conflicting events and no suggested slots.
\<close>

theorem fetch_failure_gives_empty_result:
  assumes "error (store (buildQuery venueId (isoDate s) excludeEventId)) \<noteq> None"
  shows "checkVenueConflict store utcOffset venueId (Some s) endTime excludeEventId =
           Inr \<lparr>hasConflict = False, conflictingEvents = [], suggestedSlots = []\<rparr>"
  using assms by (rule checkVenueConflict_fetch_error)

theorem fetch_failure_gives_empty_result_witness:
  "error (failingStore (buildQuery ''hall'' (isoDate (hm 14 0)) (Some ''ev1''))) = Some ''connection refused'' \<and>
   checkVenueConflict failingStore 19800000 ''hall'' (Some (hm 14 0)) (Some (hm 15 0)) (Some ''ev1'') =
     Inr \<lparr>hasConflict = False, conflictingEvents = [], suggestedSlots = []\<rparr>"
proof -
  have h: "error (failingStore (buildQuery ''hall'' (isoDate (hm 14 0)) (Some ''ev1''))) = Some ''connection refused''"
    by (simp add: failingStore_def)
  then have "error (failingStore (buildQuery ''hall'' (isoDate (hm 14 0)) (Some ''ev1''))) \<noteq> None"
    by simp
  from this [THEN fetch_failure_gives_empty_result [where store = failingStore and venueId = "''hall''"
      and s = "hm 14 0" and excludeEventId = "Some ''ev1''" and utcOffset = 19800000
      and endTime = "Some (hm 15 0)"]] h
  show ?thesis by simp
qed

text \<open>
  C4, as the claim states it, fails: a request whose start is not before its end is not
  rejected. With booking A from 10:00 to 20:00, the request from 12:00 to 11:00 gets an
  ordinary result: a conflict with A and two suggested slots.
\<close>

theorem reversed_request_is_not_rejected:
  "checkVenueConflict (storeOf [booking ''A'' (hm 10 0) (hm 20 0)]) 0 ''hall''
     (Some (hm 12 0)) (Some (hm 11 0)) None =
     Inr \<lparr>hasConflict = True,
          conflictingEvents = [booking ''A'' (hm 10 0) (hm 20 0)],
          suggestedSlots =
            [\<lparr>slot_start_time = hm 9 0, slot_end_time = hm 8 0, available = True\<rparr>,
             \<lparr>slot_start_time = hm 20 0, slot_end_time = hm 19 0, available = True\<rparr>]\<rparr>"
  by code_simp

text \<open>
  C4, amended: \<^verbatim>\<open>checkVenueConflict\<close> does not compare the start of the request with
  its end, so a request with start at or after end is not rejected with a validation
  error, as the run above shows. For every request with a valid start Date, whether its
  start is before its end or not, and an empty list of fetched bookings, the call does
  not fail: it returns \<open>hasConflict = False\<close>, an empty list of conflicting events and no
  suggested slots.
\<close>

theorem request_order_is_not_validated:
  assumes "store (buildQuery venueId (isoDate s) excludeEventId) = \<lparr>data = Some [], error = None\<rparr>"
  shows "checkVenueConflict store utcOffset venueId (Some s) endTime excludeEventId =
           Inr \<lparr>hasConflict = False, conflictingEvents = [], suggestedSlots = []\<rparr>"
proof -
  have ok: "error (store (buildQuery venueId (isoDate s) excludeEventId)) = None"
    by (simp add: assms)
  from checkVenueConflict_fetched [where store = store and venueId = venueId and s = s
      and excludeEventId = excludeEventId and utcOffset = utcOffset and endTime = endTime] ok
  show ?thesis by (auto simp add: assms)
qed

text \<open>
  A run of it: no bookings, and the request from 12:00 to 11:00, whose start is after its
  end.
\<close>

theorem request_order_is_not_validated_witness:
  "hm 11 0 \<le> hm 12 0 \<and>
   storeOf [] (buildQuery ''hall'' (isoDate (hm 12 0)) None) = \<lparr>data = Some [], error = None\<rparr> \<and>
   checkVenueConflict (storeOf []) 0 ''hall'' (Some (hm 12 0)) (Some (hm 11 0)) None =
     Inr \<lparr>hasConflict = False, conflictingEvents = [], suggestedSlots = []\<rparr>"
proof -
  have r: "hm 11 0 \<le> hm 12 0"
    by (simp add: hm_def)
  have h: "storeOf [] (buildQuery ''hall'' (isoDate (hm 12 0)) None) = \<lparr>data = Some [], error = None\<rparr>"
    by (simp add: storeOf_def)
  from request_order_is_not_validated [where store = "storeOf []" and venueId = "''hall''"
      and s = "hm 12 0" and endTime = "Some (hm 11 0)" and excludeEventId = None and utcOffset = 0] h r
  show ?thesis by blast
qed









text \<open>
  C9: the test that \<^verbatim>\<open>checkVenueConflict\<close> applies is symmetric on intervals with start
  before end: the new event tested against the existing one gives the same answer as
  the existing one tested against the new one.
\<close>

theorem eventsOverlap_symmetric:
  assumes "aStart < aEnd" and "bStart < bEnd"
  shows "eventsOverlap (Some aStart) (Some aEnd) (Some bStart) (Some bEnd) =
         eventsOverlap (Some bStart) (Some bEnd) (Some aStart) (Some aEnd)"
  using assms by (auto simp add: eventsOverlap_def)

theorem eventsOverlap_symmetric_witness:
  "hm 10 0 < hm 12 0 \<and> hm 11 0 < hm 13 0 \<and>
   eventsOverlap (Some (hm 10 0)) (Some (hm 12 0)) (Some (hm 11 0)) (Some (hm 13 0)) \<and>
   eventsOverlap (Some (hm 11 0)) (Some (hm 13 0)) (Some (hm 10 0)) (Some (hm 12 0))"
proof -
  have h1: "hm 10 0 < hm 12 0" and h2: "hm 11 0 < hm 13 0"
    by (simp_all add: hm_def)
  have a: "eventsOverlap (Some (hm 10 0)) (Some (hm 12 0)) (Some (hm 11 0)) (Some (hm 13 0))"
    by code_simp
  from eventsOverlap_symmetric [OF h1 h2] a h1 h2 show ?thesis by simp
qed

text \<open>
  C10: in every result that \<^verbatim>\<open>checkVenueConflict\<close> returns, \<open>hasConflict\<close> is true
  exactly when the list of conflicting events is not empty, and when \<open>hasConflict\<close> is
  false there are no suggested slots.
\<close>

theorem conflict_check_is_consistent:
  assumes "checkVenueConflict store utcOffset venueId startTime endTime excludeEventId = Inr r"
  shows "(hasConflict r \<longleftrightarrow> conflictingEvents r \<noteq> []) \<and>
         (\<not> hasConflict r \<longrightarrow> suggestedSlots r = [])"
proof (cases startTime)
  case None
  with assms show ?thesis by (simp add: checkVenueConflict_invalid_start)
next
  case (Some s)
  show ?thesis
  proof (cases "error (store (buildQuery venueId (isoDate s) excludeEventId)) = None")
    case True
    from checkVenueConflict_fetched [where store = store and venueId = venueId and s = s
        and excludeEventId = excludeEventId and utcOffset = utcOffset and endTime = endTime] True
      assms Some
    show ?thesis by auto
  next
    case False
    then have "checkVenueConflict store utcOffset venueId (Some s) endTime excludeEventId =
        Inr \<lparr>hasConflict = False, conflictingEvents = [], suggestedSlots = []\<rparr>"
      by (rule checkVenueConflict_fetch_error)
    with assms Some show ?thesis by auto
  qed
qed

text \<open>
  Two runs of it with bookings 09:00 to 10:00 and 15:00 to 16:00: the request 12:00 to
  13:00 meets neither and gets no slots; the request 09:30 to 10:30 meets the first
  and gets the slots 10:00 to 11:00 and 16:00 to 17:00.
\<close>

theorem conflict_check_is_consistent_witness:
  "checkVenueConflict (storeOf [booking ''A'' (hm 9 0) (hm 10 0), booking ''B'' (hm 15 0) (hm 16 0)])
     0 ''hall'' (Some (hm 12 0)) (Some (hm 13 0)) None =
     Inr \<lparr>hasConflict = False, conflictingEvents = [], suggestedSlots = []\<rparr> \<and>
   checkVenueConflict (storeOf [booking ''A'' (hm 9 0) (hm 10 0), booking ''B'' (hm 15 0) (hm 16 0)])
     0 ''hall'' (Some (hm 9 30)) (Some (hm 10 30)) None =
     Inr \<lparr>hasConflict = True, conflictingEvents = [booking ''A'' (hm 9 0) (hm 10 0)],
          suggestedSlots =
            [\<lparr>slot_start_time = hm 10 0, slot_end_time = hm 11 0, available = True\<rparr>,
             \<lparr>slot_start_time = hm 16 0, slot_end_time = hm 17 0, available = True\<rparr>]\<rparr>"
proof -
  let ?events = "[booking ''A'' (hm 9 0) (hm 10 0), booking ''B'' (hm 15 0) (hm 16 0)]"
  have free: "checkVenueConflict (storeOf ?events) 0 ''hall'' (Some (hm 12 0)) (Some (hm 13 0)) None =
     Inr \<lparr>hasConflict = False, conflictingEvents = [], suggestedSlots = []\<rparr>"
    by code_simp
  have busy: "checkVenueConflict (storeOf ?events) 0 ''hall'' (Some (hm 9 30)) (Some (hm 10 30)) None =
     Inr \<lparr>hasConflict = True, conflictingEvents = [booking ''A'' (hm 9 0) (hm 10 0)],
          suggestedSlots =
            [\<lparr>slot_start_time = hm 10 0, slot_end_time = hm 11 0, available = True\<rparr>,
             \<lparr>slot_start_time = hm 16 0, slot_end_time = hm 17 0, available = True\<rparr>]\<rparr>"
    by code_simp
  from conflict_check_is_consistent [where store = "storeOf ?events" and utcOffset = 0
      and venueId = "''hall''" and startTime = "Some (hm 12 0)" and endTime = "Some (hm 13 0)"
      and excludeEventId = None, OF free]
    conflict_check_is_consistent [where store = "storeOf ?events" and utcOffset = 0
      and venueId = "''hall''" and startTime = "Some (hm 9 30)" and endTime = "Some (hm 10 30)"
      and excludeEventId = None, OF busy]
    free busy
  show ?thesis by simp
qed

end
